theory Spec2Isabelle
  imports Main
begin

section \<open>Python strings\<close>

text \<open>
  A Python \<open>str\<close> is a sequence of Unicode code points; it is modelled as a list of
  natural numbers, one per code point. \<open>py\<close> turns an ASCII literal into that form.
\<close>

type_synonym pystr = "nat list"

definition py :: "string \<Rightarrow> pystr" where
  "py s = map of_char s"

text \<open>The pipe character and the line feed, as code points.\<close>

definition pipe :: nat where
  "pipe = 124"

definition newline :: nat where
  "newline = 10"

text \<open>
  \<open>str.isspace\<close> for one code point: the characters \<open>str.strip()\<close> removes when it is
  called without an argument (the ASCII white space and separators, NEL, NBSP and the
  Unicode space separators).
\<close>

definition isspace :: "nat \<Rightarrow> bool" where
  "isspace c =
     (c \<in> set [9, 10, 11, 12, 13, 28, 29, 30, 31, 32, 133, 160, 5760,
                8192, 8193, 8194, 8195, 8196, 8197, 8198, 8199, 8200, 8201, 8202,
                8232, 8233, 8239, 8287, 12288])"

text \<open>\<open>s.strip()\<close>: white space removed at both ends.\<close>

definition strip :: "pystr \<Rightarrow> pystr" where
  "strip s = rev (dropWhile isspace (rev (dropWhile isspace s)))"

text \<open>\<open>s.strip(chars)\<close>: every leading and trailing character that occurs in \<open>chars\<close> removed.\<close>

definition strip_chars :: "pystr \<Rightarrow> pystr \<Rightarrow> pystr" where
  "strip_chars chars s =
     rev (dropWhile (\<lambda>c. c \<in> set chars) (rev (dropWhile (\<lambda>c. c \<in> set chars) s)))"

text \<open>
  \<open>s.split(sep)\<close> for a one-character separator: the pieces between the separators, in
  order; the result always has at least one piece (\<open>''''.split(sep) == ['''']\<close>).
\<close>

fun split_on :: "nat \<Rightarrow> pystr \<Rightarrow> pystr list" where
  "split_on sep [] = [[]]"
| "split_on sep (c # cs) =
     (if c = sep then [] # split_on sep cs
      else (case split_on sep cs of
              [] \<Rightarrow> [[c]]
            | w # ws \<Rightarrow> (c # w) # ws))"

text \<open>\<open>s.startswith(p)\<close>.\<close>

definition startswith :: "pystr \<Rightarrow> pystr \<Rightarrow> bool" where
  "startswith p s = (take (length p) s = p)"

text \<open>\<open>s.endswith(suffix)\<close>.\<close>

definition endswith :: "pystr \<Rightarrow> pystr \<Rightarrow> bool" where
  "endswith suffix s =
     (length suffix \<le> length s \<and> drop (length s - length suffix) s = suffix)"

text \<open>\<open>p in s\<close> for strings: \<open>p\<close> occurs in \<open>s\<close> as a contiguous substring.\<close>

fun py_in :: "pystr \<Rightarrow> pystr \<Rightarrow> bool" where
  "py_in p [] = (p = [])"
| "py_in p (c # cs) = (startswith p (c # cs) \<or> py_in p cs)"

text \<open>
  \<open>s.replace(old, new)\<close>: the occurrences of \<open>old\<close> are found from the left, without
  overlap, and each is replaced by \<open>new\<close>. For an empty \<open>old\<close> Python puts \<open>new\<close> before
  every character and at the end.
\<close>

function py_replace :: "pystr \<Rightarrow> pystr \<Rightarrow> pystr \<Rightarrow> pystr" where
  "py_replace old new [] = (if old = [] then new else [])"
| "py_replace old new (c # cs) =
     (if old = [] then new @ c # py_replace old new cs
      else if startswith old (c # cs)
           then new @ py_replace old new (drop (length old) (c # cs))
      else c # py_replace old new cs)"
  by pat_completeness auto
termination
  by (relation "measure (\<lambda>(old, new, s). length s)") (auto simp: neq_Nil_conv)

section \<open>Frontend.py: the markdown table of the test plan\<close>

text \<open>
  Phase 3 of the Streamlit page turns the test plan kept in the session into rows. One
  row is a dictionary with five string entries.
\<close>

record test_case_row =
  Test_ID :: pystr
  Feature :: pystr
  Scenario :: pystr
  Expected_Result :: pystr
  Grounded_Source :: pystr

text \<open>\<open>cells[i] if len(cells) > i else ""\<close>.\<close>

definition cell_or_empty :: "pystr list \<Rightarrow> nat \<Rightarrow> pystr" where
  "cell_or_empty cells i = (if length cells > i then cells ! i else [])"

text \<open>The dictionary \<open>row_data\<close> built from the cells of an accepted line.\<close>

definition row_data :: "pystr list \<Rightarrow> test_case_row" where
  "row_data cells =
     \<lparr> Test_ID = (case cells of [] \<Rightarrow> [] | c # _ \<Rightarrow> c),
       Feature = cell_or_empty cells 1,
       Scenario = cell_or_empty cells 2,
       Expected_Result = cell_or_empty cells 3,
       Grounded_Source = cell_or_empty cells 4 \<rparr>"

text \<open>\<open>[c.strip() for c in line.strip('|').split('|')]\<close>.\<close>

definition line_cells :: "pystr \<Rightarrow> pystr list" where
  "line_cells line = map strip (split_on pipe (strip_chars [pipe] line))"

text \<open>
  The \<open>for line in table_lines\<close> loop, with the list \<open>rows\<close> it appends to. The loop runs
  inside a \<open>try\<close> whose handler only shows a warning: were \<open>cells[0]\<close> to raise on an empty
  list, the loop would stop and \<open>rows\<close> would keep what it held.
\<close>

fun parse_rows :: "pystr list \<Rightarrow> test_case_row list \<Rightarrow> test_case_row list" where
  "parse_rows [] rows = rows"
| "parse_rows (line # rest) rows =
     (case line_cells line of
        [] \<Rightarrow> rows
      | c0 # cs \<Rightarrow>
          if py_in (py ''---'') c0 \<or> py_in (py ''Test_ID'') c0 then parse_rows rest rows
          else if length (c0 # cs) \<ge> 4 then parse_rows rest (rows @ [row_data (c0 # cs)])
          else parse_rows rest rows)"

text \<open>\<open>[line for line in lines if line.strip().startswith("|")]\<close> over \<open>raw_plan.strip().split('\n')\<close>.\<close>

definition table_lines :: "pystr \<Rightarrow> pystr list" where
  "table_lines raw_plan =
     filter (\<lambda>line. startswith [pipe] (strip line)) (split_on newline (strip raw_plan))"

text \<open>The whole parsing block: the value of \<open>rows\<close> after it.\<close>

definition parse_table :: "pystr \<Rightarrow> test_case_row list" where
  "parse_table raw_plan = parse_rows (table_lines raw_plan) []"

text \<open>
  The test a line's cells pass to become a row: the first cell holds neither \<open>---\<close> nor
  \<open>Test_ID\<close> as a substring, and there are at least four cells.
\<close>

definition row_accepted :: "pystr list \<Rightarrow> bool" where
  "row_accepted cells =
     (case cells of
        [] \<Rightarrow> False
      | c0 # _ \<Rightarrow>
          \<not> py_in (py ''---'') c0 \<and> \<not> py_in (py ''Test_ID'') c0 \<and> 4 \<le> length cells)"

subsection \<open>The parser as the specification words it\<close>

text \<open>
  The specification's sentence, taken literally: the lines of the response text that
  start with a pipe are kept, the outer pipes are stripped and the rest is split on the
  pipe into cells; a row is discarded when its cells contain \<open>---\<close> (a separator row) or
  when its first cell equals \<open>Test_ID\<close> (the header row); a row needs at least four cells.
  The cells are trimmed and the row is filled as in the code.
\<close>

definition claimed_table_lines :: "pystr \<Rightarrow> pystr list" where
  "claimed_table_lines response_text =
     filter (startswith [pipe]) (split_on newline response_text)"

definition claimed_row_kept :: "pystr list \<Rightarrow> bool" where
  "claimed_row_kept cells =
     (\<not> list_ex (py_in (py ''---'')) cells \<and>
      (case cells of [] \<Rightarrow> False | c0 # _ \<Rightarrow> c0 \<noteq> py ''Test_ID'') \<and>
      4 \<le> length cells)"

definition claimed_parse_table :: "pystr \<Rightarrow> test_case_row list" where
  "claimed_parse_table response_text =
     map row_data (filter claimed_row_kept (map line_cells (claimed_table_lines response_text)))"

section \<open>Frontend.py: the clean-up of a returned script\<close>

text \<open>
  Both the table mode and the manual mode run the same two lines on the script the
  backend returned:
  \<^verbatim>\<open>if script_code.startswith(FENCE + "python"):\<close>
  \<^verbatim>\<open>    script_code = script_code.replace(FENCE + "python", "").replace(FENCE, "")\<close>
  where \<open>FENCE\<close> stands for the three backticks of a markdown code fence.
\<close>

definition backtick :: nat where
  "backtick = 96"

definition fence :: pystr where
  "fence = py ''```''"

definition fence_python :: pystr where
  "fence_python = py ''```python''"

definition clean_script :: "pystr \<Rightarrow> pystr" where
  "clean_script script_code =
     (if startswith fence_python script_code
      then py_replace fence [] (py_replace fence_python [] script_code)
      else script_code)"

text \<open>The number of backticks a string begins with.\<close>

definition lead :: "pystr \<Rightarrow> nat" where
  "lead s = length (takeWhile (\<lambda>c. c = backtick) s)"

subsection \<open>The clean-up as the specification words it\<close>

text \<open>
  The specification's sentence, taken literally: a fence marker at the very start of the
  script (with or without the language tag) and a fence marker at the very end are
  removed when present; nothing else changes.
\<close>

definition claimed_clean_script :: "pystr \<Rightarrow> pystr" where
  "claimed_clean_script script_code =
     (let s1 = (if startswith fence_python script_code
                then drop (length fence_python) script_code
                else if startswith fence script_code
                then drop (length fence) script_code
                else script_code)
      in if endswith fence s1 then take (length s1 - length fence) s1 else s1)"

section \<open>Backend.py: files, documents and the services it calls\<close>

text \<open>
  Paths and file names are strings; what a file holds is a list of bytes. The upload
  directory is a map from paths to contents.
\<close>

type_synonym path = pystr
type_synonym bytes = "nat list"
type_synonym filesystem = "path \<rightharpoonup> bytes"

text \<open>
  The exceptions the endpoints can meet: the three the file operations of the source
  raise, and one for an exception raised inside a third-party library or service, with
  the text \<open>str(e)\<close> gives for it.
\<close>

datatype py_exception =
    FileNotFoundError
  | OSError
  | UnicodeDecodeError
  | LibraryError pystr

text \<open>\<open>sep.join(xs)\<close>.\<close>

fun join :: "pystr \<Rightarrow> pystr list \<Rightarrow> pystr" where
  "join sep [] = []"
| "join sep [x] = x"
| "join sep (x # y # ys) = x @ sep @ join sep (y # ys)"

text \<open>
  \<open>s.lower()\<close> on the ASCII letters. The other code points are left as they are: none of
  them lower-cases to one of the characters of \<open>.pdf\<close>, the only use the source makes of it.
\<close>

definition lower :: "pystr \<Rightarrow> pystr" where
  "lower s = map (\<lambda>c. if 65 \<le> c \<and> c \<le> 90 then c + 32 else c) s"

text \<open>\<open>str(n)\<close> for a natural number, as the f-string of the reply formats it.\<close>

fun show_nat :: "nat \<Rightarrow> pystr" where
  "show_nat n = (if n < 10 then [48 + n] else show_nat (n div 10) @ [48 + n mod 10])"

declare show_nat.simps [simp del]

text \<open>
  Reading a file opened with \<open>encoding='utf-8'\<close>: the strict UTF-8 decoder (no overlong
  form, no surrogate, nothing above U+10FFFF; a byte that fits nowhere is an error)
  followed by the translation of \<open>\r\n\<close> and \<open>\r\<close> to \<open>\n\<close> that Python's text mode applies.
\<close>

definition is_cont :: "nat \<Rightarrow> bool" where
  "is_cont b = (128 \<le> b \<and> b \<le> 191)"

fun utf8_decode :: "bytes \<Rightarrow> pystr option" where
  "utf8_decode [] = Some []"
| "utf8_decode (b0 # bs) =
     (if b0 < 128 then map_option ((#) b0) (utf8_decode bs)
      else if 194 \<le> b0 \<and> b0 \<le> 223 then
        (case bs of
           b1 # r \<Rightarrow>
             if is_cont b1
             then map_option ((#) ((b0 - 192) * 64 + (b1 - 128))) (utf8_decode r)
             else None
         | _ \<Rightarrow> None)
      else if 224 \<le> b0 \<and> b0 \<le> 239 then
        (case bs of
           b1 # b2 # r \<Rightarrow>
             (let cp = (b0 - 224) * 4096 + (b1 - 128) * 64 + (b2 - 128)
              in if is_cont b1 \<and> is_cont b2 \<and> 2048 \<le> cp \<and> (cp < 55296 \<or> 57343 < cp)
                 then map_option ((#) cp) (utf8_decode r)
                 else None)
         | _ \<Rightarrow> None)
      else if 240 \<le> b0 \<and> b0 \<le> 244 then
        (case bs of
           b1 # b2 # b3 # r \<Rightarrow>
             (let cp = (b0 - 240) * 262144 + (b1 - 128) * 4096 + (b2 - 128) * 64 + (b3 - 128)
              in if is_cont b1 \<and> is_cont b2 \<and> is_cont b3 \<and> 65536 \<le> cp \<and> cp \<le> 1114111
                 then map_option ((#) cp) (utf8_decode r)
                 else None)
         | _ \<Rightarrow> None)
      else None)"

fun universal_newlines :: "pystr \<Rightarrow> pystr" where
  "universal_newlines [] = []"
| "universal_newlines [c] = (if c = 13 then [10] else [c])"
| "universal_newlines (c # d # cs) =
     (if c = 13 \<and> d = 10 then 10 # universal_newlines cs
      else if c = 13 then 10 # universal_newlines (d # cs)
      else c # universal_newlines (d # cs))"

text \<open>\<open>open(p, 'r', encoding='utf-8')\<close> and \<open>read()\<close>.\<close>

definition read_text :: "filesystem \<Rightarrow> path \<Rightarrow> py_exception + pystr" where
  "read_text fs p =
     (case fs p of
        None \<Rightarrow> Inl FileNotFoundError
      | Some bs \<Rightarrow>
          (case utf8_decode bs of
             None \<Rightarrow> Inl UnicodeDecodeError
           | Some t \<Rightarrow> Inr (universal_newlines t)))"

text \<open>\<open>os.path.join(a, b)\<close> on a POSIX system; 47 is the slash.\<close>

definition path_join :: "path \<Rightarrow> path \<Rightarrow> path" where
  "path_join a b =
     (if startswith [47] b then b
      else if a = [] \<or> endswith [47] a then a @ b
      else a @ [47] @ b)"

text \<open>A LangChain \<open>Document\<close>: its text and its metadata dictionary.\<close>

record document =
  page_content :: pystr
  metadata :: "pystr \<rightharpoonup> pystr"

text \<open>An \<open>UploadFile\<close>: the name the client sent and the bytes of the upload.\<close>

record upload_file =
  filename :: pystr
  file_bytes :: bytes

text \<open>The model object \<open>llm\<close> holds when it is not \<open>None\<close>.\<close>

datatype chat_model = ChatGoogleGenerativeAI (model: pystr) (google_api_key: pystr)

text \<open>
  The calls that leave the process: an append to the vector store, a similarity search
  in it (with the query and \<open>k\<close>), a request to the model (with the prompt).
\<close>

datatype call =
    AddDocuments "document list"
  | SimilaritySearch pystr nat
  | LlmInvoke chat_model pystr

text \<open>
  What the backend does not compute itself is taken from the outside, one field per
  library or service call of the source. An \<open>Inl\<close> stands for an exception raised by the
  call (for the store and the model, with the text of \<open>str(e)\<close>).
  \<^item> \<open>can_write p\<close>: \<open>open(p, "wb")\<close> succeeds; \<open>write_exception p\<close>: the exception it
    raises when it does not (\<open>FileNotFoundError\<close> for a missing directory, another
    \<open>OSError\<close> otherwise);
  \<^item> \<open>PyPDFLoader_load p b\<close>: \<open>PyPDFLoader(p).load()\<close>, \<open>b\<close> being what the disk holds at \<open>p\<close>;
  \<^item> \<open>parser_rejects html\<close>: the exception of \<open>BeautifulSoup(f, 'html.parser')\<close> on the
    text of the page, if the parser rejects the markup;
  \<^item> \<open>soup_get_text\<close>, \<open>soup_str\<close>: \<open>soup.get_text(separator="\n")\<close> and \<open>str(soup)\<close> for the
    soup parsed from the text of the page, when the parser accepts it;
  \<^item> \<open>split_documents\<close>: the \<open>RecursiveCharacterTextSplitter\<close> with its fixed sizes;
  \<^item> \<open>add_documents_error store docs\<close>: the exception of \<open>vector_db.add_documents(docs)\<close>,
    if it raises; otherwise the documents are appended to the store;
  \<^item> \<open>similarity_search store query k\<close>: the search, also behind the retriever of the chain;
  \<^item> \<open>llm_invoke m prompt\<close>: the text the model returns;
  \<^item> \<open>new_chat_model name key\<close>: the constructor \<open>ChatGoogleGenerativeAI(...)\<close>.
\<close>

record services =
  can_write :: "path \<Rightarrow> bool"
  write_exception :: "path \<Rightarrow> py_exception"
  PyPDFLoader_load :: "path \<Rightarrow> bytes option \<Rightarrow> py_exception + document list"
  parser_rejects :: "pystr \<Rightarrow> pystr option"
  soup_get_text :: "pystr \<Rightarrow> pystr"
  soup_str :: "pystr \<Rightarrow> pystr"
  split_documents :: "document list \<Rightarrow> document list"
  add_documents_error :: "document list \<Rightarrow> document list \<Rightarrow> pystr option"
  similarity_search :: "document list \<Rightarrow> pystr \<Rightarrow> nat \<Rightarrow> pystr + document list"
  llm_invoke :: "chat_model \<Rightarrow> pystr \<Rightarrow> pystr + pystr"
  new_chat_model :: "pystr \<Rightarrow> pystr \<Rightarrow> pystr + chat_model"

text \<open>
  The state of the process: the upload directory, the vector store, the global \<open>llm\<close>,
  and the calls made so far, oldest first.
\<close>

record server =
  disk :: filesystem
  vector_db :: "document list"
  llm :: "chat_model option"
  calls :: "call list"

text \<open>
  How a request fails: an \<open>HTTPException\<close> the endpoint raises itself, or an exception it
  does not catch, which FastAPI answers with status 500.
\<close>

datatype http_error =
    HTTPException nat pystr
  | Unhandled py_exception

fun status_code :: "http_error \<Rightarrow> nat" where
  "status_code (HTTPException code detail) = code"
| "status_code (Unhandled e) = 500"

text \<open>The dictionaries the three endpoints return.\<close>

datatype response =
    IngestResponse (status: pystr) (message: pystr) (chunks_created: nat)
  | PlanResponse (status: pystr) (test_plan: pystr)
  | ScriptResponse (status: pystr) (script: pystr)

text \<open>The status of the HTTP answer: 200 for a returned dictionary.\<close>

fun result_status :: "http_error + response \<Rightarrow> nat" where
  "result_status (Inl e) = status_code e"
| "result_status (Inr reply) = 200"

definition UPLOAD_DIR :: path where
  "UPLOAD_DIR = py ''./uploaded_docs''"

text \<open>\<open>os.path.join(UPLOAD_DIR, "checkout.html")\<close>, the fixed place of the page.\<close>

definition html_path :: path where
  "html_path = path_join UPLOAD_DIR (py ''checkout.html'')"

text \<open>
  The start of the module: \<open>llm\<close> stays \<open>None\<close> when \<open>GOOGLE_API_KEY\<close> is unset or empty,
  and when the constructor raises.
\<close>

definition initialize_llm :: "services \<Rightarrow> pystr option \<Rightarrow> chat_model option" where
  "initialize_llm env api_key =
     (case api_key of
        None \<Rightarrow> None
      | Some k \<Rightarrow>
          if k = [] then None
          else (case new_chat_model env (py ''gemini-2.5-pro'') k of
                  Inl e \<Rightarrow> None
                | Inr m \<Rightarrow> Some m))"

definition format_docs :: "document list \<Rightarrow> pystr" where
  "format_docs docs = join [newline, newline] (map page_content docs)"

text \<open>
  \<open>process_html_file\<close>. The file is opened as UTF-8 text and handed to BeautifulSoup,
  which reads it and parses it; neither step is inside a \<open>try\<close>.
\<close>

definition process_html_file :: "services \<Rightarrow> filesystem \<Rightarrow> path \<Rightarrow> py_exception + document list" where
  "process_html_file env fs file_path =
     (case read_text fs file_path of
        Inl e \<Rightarrow> Inl e
      | Inr html \<Rightarrow>
          (case parser_rejects env html of
             Some msg \<Rightarrow> Inl (LibraryError msg)
           | None \<Rightarrow>
          Inr [\<lparr> page_content = soup_get_text env html,
                  metadata = [py ''source'' \<mapsto> py ''checkout.html'', py ''type'' \<mapsto> py ''text''] \<rparr>,
               \<lparr> page_content = soup_str env html,
                  metadata = [py ''source'' \<mapsto> py ''checkout.html'', py ''type'' \<mapsto> py ''code''] \<rparr>]))"

text \<open>
  \<open>TextLoader(file_path, encoding="utf-8").load()\<close>. The class belongs to the package
  langchain_community, which the backend imports; as that package documents it, the
  loader reads the file at the path as text in the given encoding and returns one
  document whose metadata is \<open>{"source": file_path}\<close>, the path it was built with, and it
  raises a \<open>RuntimeError\<close> naming the path when the file cannot be read.
\<close>

definition TextLoader_load :: "filesystem \<Rightarrow> path \<Rightarrow> py_exception + document list" where
  "TextLoader_load fs file_path =
     (case read_text fs file_path of
        Inl e \<Rightarrow> Inl (LibraryError (py ''Error loading '' @ file_path))
      | Inr content \<Rightarrow>
          Inr [\<lparr> page_content = content, metadata = [py ''source'' \<mapsto> file_path] \<rparr>])"

definition load_document ::
  "services \<Rightarrow> filesystem \<Rightarrow> path \<Rightarrow> pystr \<Rightarrow> py_exception + document list" where
  "load_document env fs file_path name =
     (if endswith (py ''.pdf'') (lower name)
      then PyPDFLoader_load env file_path (fs file_path)
      else TextLoader_load fs file_path)"

text \<open>\<open>with open(p, "wb") as buffer: shutil.copyfileobj(file.file, buffer)\<close>.\<close>

definition write_file :: "services \<Rightarrow> filesystem \<Rightarrow> path \<Rightarrow> bytes \<Rightarrow> py_exception + filesystem" where
  "write_file env fs p bs =
     (if can_write env p then Inr (fs(p \<mapsto> bs)) else Inl (write_exception env p))"

text \<open>
  The loop over the support files of \<open>build_knowledge_base\<close>, with the list \<open>documents\<close> it
  extends. Writing a file is outside the \<open>try\<close>: an exception there ends the request, with
  the files written so far left on the disk. Loading is inside it: the handler prints a
  line and the loop goes on.
\<close>

fun load_support_docs ::
  "services \<Rightarrow> upload_file list \<Rightarrow> document list \<Rightarrow> filesystem
     \<Rightarrow> (py_exception + document list) \<times> filesystem" where
  "load_support_docs env [] documents fs = (Inr documents, fs)"
| "load_support_docs env (file # rest) documents fs =
     (let file_path = path_join UPLOAD_DIR (filename file) in
      case write_file env fs file_path (file_bytes file) of
        Inl e \<Rightarrow> (Inl e, fs)
      | Inr fs' \<Rightarrow>
          (case load_document env fs' file_path (filename file) of
             Inl e \<Rightarrow> load_support_docs env rest documents fs'
           | Inr docs \<Rightarrow> load_support_docs env rest (documents @ docs) fs'))"

definition build_knowledge_base ::
  "services \<Rightarrow> server \<Rightarrow> upload_file list \<Rightarrow> upload_file \<Rightarrow> (http_error + response) \<times> server" where
  "build_knowledge_base env st files html_file =
     (case load_support_docs env files [] (disk st) of
        (Inl e, fs1) \<Rightarrow> (Inl (Unhandled e), st\<lparr>disk := fs1\<rparr>)
      | (Inr documents, fs1) \<Rightarrow>
          (case write_file env fs1 html_path (file_bytes html_file) of
             Inl e \<Rightarrow> (Inl (Unhandled e), st\<lparr>disk := fs1\<rparr>)
           | Inr fs2 \<Rightarrow>
               (case process_html_file env fs2 html_path of
                  Inl e \<Rightarrow> (Inl (Unhandled e), st\<lparr>disk := fs2\<rparr>)
                | Inr html_docs \<Rightarrow>
                    (let chunked_docs = split_documents env (documents @ html_docs);
                         reply = IngestResponse (py ''success'')
                                   (py ''Processed '' @ show_nat (length files + 1) @ py '' files.'')
                                   (length chunked_docs)
                     in if chunked_docs \<noteq> [] then
                          (case add_documents_error env (vector_db st) chunked_docs of
                             Some msg \<Rightarrow>
                               (Inl (Unhandled (LibraryError msg)),
                                st\<lparr>disk := fs2, calls := calls st @ [AddDocuments chunked_docs]\<rparr>)
                           | None \<Rightarrow>
                               (Inr reply,
                                st\<lparr>disk := fs2,
                                   vector_db := vector_db st @ chunked_docs,
                                   calls := calls st @ [AddDocuments chunked_docs]\<rparr>))
                        else (Inr reply, st\<lparr>disk := fs2\<rparr>)))))"

text \<open>The template of the test plan, with its two fields filled in.\<close>

definition plan_prompt :: "pystr \<Rightarrow> pystr \<Rightarrow> pystr" where
  "plan_prompt context question =
     join [newline]
       [[],
        py ''    You are an expert QA Automation Engineer.'',
        py ''    Based strictly on the provided context, generate detailed test cases.'',
        py ''    '',
        py ''    Context: '' @ context,
        py ''    User Request: '' @ question,
        py ''    '',
        py ''    Requirements:'',
        py ''    1. Do NOT hallucinate. Use only the provided context.'',
        py ''    2. Output a Markdown table with columns: Test_ID, Feature, Scenario, Expected_Result, Grounded_Source.'',
        py ''    '']"

definition not_configured :: http_error where
  "not_configured = HTTPException 500 (py ''GOOGLE_API_KEY not configured.'')"

text \<open>
  \<open>generate_test_cases\<close>: the chain retrieves five documents for the prompt, formats
  them into the template and asks the model; any exception of the chain becomes a 500
  with its text.
\<close>

definition generate_test_cases ::
  "services \<Rightarrow> server \<Rightarrow> pystr \<Rightarrow> (http_error + response) \<times> server" where
  "generate_test_cases env st prompt =
     (case llm st of
        None \<Rightarrow> (Inl not_configured, st)
      | Some m \<Rightarrow>
          (case similarity_search env (vector_db st) prompt 5 of
             Inl msg \<Rightarrow>
               (Inl (HTTPException 500 msg), st\<lparr>calls := calls st @ [SimilaritySearch prompt 5]\<rparr>)
           | Inr docs \<Rightarrow>
               (let request = plan_prompt (format_docs docs) prompt;
                    st' = st\<lparr>calls := calls st @ [SimilaritySearch prompt 5, LlmInvoke m request]\<rparr>
                in case llm_invoke env m request of
                     Inl msg \<Rightarrow> (Inl (HTTPException 500 msg), st')
                   | Inr result \<Rightarrow> (Inr (PlanResponse (py ''success'') result), st'))))"

text \<open>The f-string of the script prompt; 39 is the single quote.\<close>

definition script_prompt :: "pystr \<Rightarrow> pystr \<Rightarrow> pystr \<Rightarrow> pystr" where
  "script_prompt test_case context_rules html_content =
     join [newline]
       [[],
        py ''    Role: Senior Selenium Automation Engineer.'',
        py ''    Task: Write a robust, runnable Python Selenium script for this test case.'',
        py ''    '',
        py ''    Test Case Scenario: '',
        py ''    '' @ test_case,
        py ''    '',
        py ''    Relevant Rules (Grounding):'',
        py ''    '' @ context_rules,
        py ''    '',
        py ''    Target HTML Source (Use EXACT IDs/Selectors):'',
        py ''    '' @ html_content,
        py ''    '',
        py ''    Requirements:'',
        py ''    1. Use `webdriver.Chrome`.'',
        py ''    2. Use `WebDriverWait` for explicit waits.'',
        py ''    3. Assert the '' @ [39] @ py ''Expected Result'' @ [39] @ py '' mentioned in the test case.'',
        py ''    4. Handle the '' @ [39] @ py ''checkout.html'' @ [39] @ py '' file path assuming it is in the current directory.'',
        py ''    5. Output ONLY valid Python code.'',
        py ''    '']"

definition html_not_found :: http_error where
  "html_not_found =
     HTTPException 404 (py ''checkout.html not found. Please run /build-knowledge-base first.'')"

text \<open>
  \<open>generate_selenium_script\<close>. The search is outside the \<open>try\<close>, so its exception is not
  caught; the request to the model is inside it.
\<close>

definition generate_selenium_script ::
  "services \<Rightarrow> server \<Rightarrow> pystr \<Rightarrow> (http_error + response) \<times> server" where
  "generate_selenium_script env st test_case =
     (case llm st of
        None \<Rightarrow> (Inl not_configured, st)
      | Some m \<Rightarrow>
          if disk st html_path = None then (Inl html_not_found, st)
          else
            (case read_text (disk st) html_path of
               Inl e \<Rightarrow> (Inl (Unhandled e), st)
             | Inr html_content \<Rightarrow>
                 (case similarity_search env (vector_db st) test_case 3 of
                    Inl msg \<Rightarrow>
                      (Inl (Unhandled (LibraryError msg)),
                       st\<lparr>calls := calls st @ [SimilaritySearch test_case 3]\<rparr>)
                  | Inr relevant_docs \<Rightarrow>
                      (let context_rules = join [newline] (map page_content relevant_docs);
                           request = script_prompt test_case context_rules html_content;
                           st' = st\<lparr>calls := calls st @
                                   [SimilaritySearch test_case 3, LlmInvoke m request]\<rparr>
                       in case llm_invoke env m request of
                            Inl msg \<Rightarrow> (Inl (HTTPException 500 msg), st')
                          | Inr content \<Rightarrow> (Inr (ScriptResponse (py ''success'') content), st')))))"

subsection \<open>Notions used to state the properties of the ingest\<close>

text \<open>The path a support file is written to.\<close>

definition upload_path :: "upload_file \<Rightarrow> path" where
  "upload_path file = path_join UPLOAD_DIR (filename file)"

text \<open>What a support file adds to \<open>documents\<close>: its documents, or nothing when loading it raises.\<close>

definition loaded_or_skipped :: "services \<Rightarrow> upload_file \<Rightarrow> document list" where
  "loaded_or_skipped env file =
     (case load_document env [upload_path file \<mapsto> file_bytes file] (upload_path file) (filename file) of
        Inl e \<Rightarrow> []
      | Inr docs \<Rightarrow> docs)"

text \<open>The disk after the support files have been written, in order.\<close>

definition stored :: "filesystem \<Rightarrow> upload_file list \<Rightarrow> filesystem" where
  "stored fs files = foldl (\<lambda>fs file. fs(upload_path file \<mapsto> file_bytes file)) fs files"

subsection \<open>A sample environment\<close>

text \<open>
  For the worked examples: every file can be written, no file is a PDF, the parser of
  the page rejects the page \<open><![UNKNOWN[]]>\<close> (a marked section whose keyword it does not
  know) and returns the text of any other page unchanged, the splitter keeps the
  documents that are not empty, the store never fails and returns its first \<open>k\<close> documents, and the model
  always answers \<open>print(1)\<close>.
\<close>

definition plain_services :: services where
  "plain_services =
     \<lparr> can_write = (\<lambda>p. True),
       write_exception = (\<lambda>p. FileNotFoundError),
       PyPDFLoader_load = (\<lambda>p b. Inl (LibraryError (py ''not a PDF''))),
       parser_rejects =
         (\<lambda>html. if html = py ''<![UNKNOWN[]]>''
            then Some (py ''unknown status keyword in marked section'') else None),
       soup_get_text = (\<lambda>html. html),
       soup_str = (\<lambda>html. html),
       split_documents = filter (\<lambda>d. page_content d \<noteq> []),
       add_documents_error = (\<lambda>store docs. None),
       similarity_search = (\<lambda>store query k. Inr (take k store)),
       llm_invoke = (\<lambda>m request. Inr (py ''print(1)'')),
       new_chat_model = (\<lambda>name key. Inr (ChatGoogleGenerativeAI name key)) \<rparr>"

text \<open>A process just started on an empty upload directory and an empty store.\<close>

definition fresh_server :: "chat_model option \<Rightarrow> server" where
  "fresh_server m = \<lparr> disk = Map.empty, vector_db = [], llm = m, calls = [] \<rparr>"

definition gemini :: chat_model where
  "gemini = ChatGoogleGenerativeAI (py ''gemini-2.5-pro'') (py ''key'')"

text \<open>That process after the page \<open><p>\<close> has been ingested with no support file.\<close>

definition ingested_page :: server where
  "ingested_page =
     \<lparr> disk = [html_path \<mapsto> [60, 112, 62]],
       vector_db =
         [\<lparr> page_content = py ''<p>'',
             metadata = [py ''source'' \<mapsto> py ''checkout.html'', py ''type'' \<mapsto> py ''text''] \<rparr>,
          \<lparr> page_content = py ''<p>'',
             metadata = [py ''source'' \<mapsto> py ''checkout.html'', py ''type'' \<mapsto> py ''code''] \<rparr>],
       llm = Some gemini,
       calls =
         [AddDocuments
            [\<lparr> page_content = py ''<p>'',
                metadata = [py ''source'' \<mapsto> py ''checkout.html'', py ''type'' \<mapsto> py ''text''] \<rparr>,
             \<lparr> page_content = py ''<p>'',
                metadata = [py ''source'' \<mapsto> py ''checkout.html'', py ''type'' \<mapsto> py ''code''] \<rparr>]] \<rparr>"

section \<open>Evaluation of the string functions\<close>

lemma py_Nil: "py [] = []"
  by (simp add: py_def)

lemma py_Cons: "py (c # cs) = of_char c # py cs"
  by (simp add: py_def)

lemmas py_eval = py_Nil py_Cons

lemmas str_eval =
  py_eval pipe_def newline_def isspace_def strip_def strip_chars_def startswith_def

section \<open>The parser on the three-line example\<close>

text \<open>
  C2. The three-line text whose first line is the TC-001 row, whose second line is the
  separator \<open>|---|---|---|---|---|\<close> and whose third line is the TC-002 row is parsed into
  exactly two rows, TC-001 and then TC-002; the separator line yields no row.
\<close>

theorem parse_table_three_lines:
  "parse_table
     (py ''| TC-001 | Login | Valid login | Redirect to dashboard | spec.md |'' @ [newline] @
      py ''|---|---|---|---|---|'' @ [newline] @
      py ''| TC-002 | Login | Invalid password | Error shown | spec.md |'')
   = [\<lparr> Test_ID = py ''TC-001'', Feature = py ''Login'', Scenario = py ''Valid login'',
         Expected_Result = py ''Redirect to dashboard'', Grounded_Source = py ''spec.md'' \<rparr>,
      \<lparr> Test_ID = py ''TC-002'', Feature = py ''Login'', Scenario = py ''Invalid password'',
         Expected_Result = py ''Error shown'', Grounded_Source = py ''spec.md'' \<rparr>]"
  by (simp add: parse_table_def table_lines_def line_cells_def row_data_def
      cell_or_empty_def str_eval)

section \<open>The parser in general\<close>

lemma split_on_not_Nil: "split_on sep s \<noteq> []"
  by (induction s) (auto split: list.splits)

lemma line_cells_not_Nil: "line_cells line \<noteq> []"
  by (simp add: line_cells_def split_on_not_Nil)

text \<open>The loop appends, to the rows it starts with, one row per accepted line, in order.\<close>

lemma parse_rows_acc:
  "parse_rows ls rows = rows @ map row_data (filter row_accepted (map line_cells ls))"
proof (induction ls arbitrary: rows)
  case Nil
  then show ?case by simp
next
  case (Cons l ls)
  obtain c0 cs where c: "line_cells l = c0 # cs"
    using line_cells_not_Nil [of l] by (cases "line_cells l") auto
  show ?case
    using Cons.IH c by (simp add: row_accepted_def)
qed

lemma parse_table_eq:
  "parse_table raw_plan =
     map row_data (filter row_accepted (map line_cells (table_lines raw_plan)))"
  by (simp add: parse_table_def parse_rows_acc)

lemma row_data_Test_ID: "row_accepted cells \<Longrightarrow> Test_ID (row_data cells) = hd cells"
  by (cases cells) (simp_all add: row_accepted_def row_data_def)

lemma row_accepted_first:
  "row_accepted cells \<Longrightarrow>
     \<not> py_in (py ''---'') (hd cells) \<and> \<not> py_in (py ''Test_ID'') (hd cells)"
  by (cases cells) (simp_all add: row_accepted_def)

lemma row_accepted_iff:
  "cells \<noteq> [] \<Longrightarrow>
   row_accepted cells \<longleftrightarrow>
     4 \<le> length cells \<and> \<not> py_in (py ''---'') (hd cells) \<and> \<not> py_in (py ''Test_ID'') (hd cells)"
  by (cases cells) (auto simp add: row_accepted_def)

lemma row_data_four:
  "4 \<le> length cells \<Longrightarrow>
   row_data cells =
     \<lparr> Test_ID = hd cells, Feature = cells ! 1, Scenario = cells ! 2,
       Expected_Result = cells ! 3,
       Grounded_Source = (if 4 < length cells then cells ! 4 else []) \<rparr>"
  by (cases cells) (simp_all add: row_data_def cell_or_empty_def)

text \<open>A line that starts with a pipe still does once white space is stripped from it.\<close>

lemma startswith_pipe_strip:
  assumes "startswith [pipe] line"
  shows "startswith [pipe] (strip line)"
proof -
  obtain rest where l: "line = pipe # rest"
    using assms by (cases line) (simp_all add: startswith_def)
  have np: "\<not> isspace pipe"
    by (simp add: isspace_def pipe_def)
  have "strip line = rev (dropWhile isspace (rev rest @ [pipe]))"
    using np by (simp add: strip_def l)
  also have "\<dots> = pipe # rev (dropWhile isspace (rev rest))"
    using np by (simp add: dropWhile_append3)
  finally show ?thesis by (simp add: startswith_def)
qed

text \<open>
  C1, as the code has it, for a plan whose table lines carry no white space before
  their first or after their last character (every line that starts with a pipe once
  stripped is already stripped). The text is stripped and split at the line feeds; the
  lines that start with a pipe are kept; each is cut into cells by removing the pipes at
  its two ends, splitting at the pipes and trimming every cell; a row is kept when it has
  at least four cells and its first cell contains neither \<open>---\<close> nor \<open>Test_ID\<close> as a
  substring; the row takes the first four cells, and the fifth as \<open>Grounded_Source\<close> when
  there is one, the empty string otherwise.
\<close>

theorem parse_table_rows:
  assumes "\<forall>line \<in> set (split_on newline (strip raw_plan)).
             startswith [pipe] (strip line) \<longrightarrow> strip line = line"
  shows "parse_table raw_plan =
     map (\<lambda>cells. \<lparr> Test_ID = hd cells, Feature = cells ! 1, Scenario = cells ! 2,
                     Expected_Result = cells ! 3,
                     Grounded_Source = (if 4 < length cells then cells ! 4 else []) \<rparr>)
       (filter (\<lambda>cells. 4 \<le> length cells
                  \<and> \<not> py_in (py ''---'') (hd cells) \<and> \<not> py_in (py ''Test_ID'') (hd cells))
          (map (\<lambda>line. map strip (split_on pipe (strip_chars [pipe] line)))
             (filter (startswith [pipe]) (split_on newline (strip raw_plan)))))"
proof -
  let ?lines = "split_on newline (strip raw_plan)"
  let ?ok = "\<lambda>cells. 4 \<le> length cells
                  \<and> \<not> py_in (py ''---'') (hd cells) \<and> \<not> py_in (py ''Test_ID'') (hd cells)"
  have kept: "table_lines raw_plan = filter (startswith [pipe]) ?lines"
    unfolding table_lines_def
  proof (rule filter_cong [OF refl])
    fix line
    assume "line \<in> set ?lines"
    then show "startswith [pipe] (strip line) = startswith [pipe] line"
      using assms startswith_pipe_strip [of line] by auto
  qed
  have cells: "map line_cells ls = map (\<lambda>line. map strip (split_on pipe (strip_chars [pipe] line))) ls"
    for ls
    by (simp add: line_cells_def)
  have acc: "filter row_accepted (map line_cells ls) = filter ?ok (map line_cells ls)" for ls
  proof (rule filter_cong [OF refl])
    fix c
    assume "c \<in> set (map line_cells ls)"
    then have "c \<noteq> []" using line_cells_not_Nil by auto
    then show "row_accepted c = ?ok c" by (rule row_accepted_iff)
  qed
  have rows: "map row_data (filter ?ok cs) =
      map (\<lambda>cells. \<lparr> Test_ID = hd cells, Feature = cells ! 1, Scenario = cells ! 2,
                      Expected_Result = cells ! 3,
                      Grounded_Source = (if 4 < length cells then cells ! 4 else []) \<rparr>)
        (filter ?ok cs)" for cs
    by (rule map_cong [OF refl]) (simp add: row_data_four)
  have "parse_table raw_plan =
      map row_data (filter row_accepted (map line_cells (filter (startswith [pipe]) ?lines)))"
    by (simp only: parse_table_eq kept)
  also have "\<dots> = map row_data (filter ?ok (map line_cells (filter (startswith [pipe]) ?lines)))"
    by (simp only: acc)
  also have "\<dots> =
      map (\<lambda>cells. \<lparr> Test_ID = hd cells, Feature = cells ! 1, Scenario = cells ! 2,
                      Expected_Result = cells ! 3,
                      Grounded_Source = (if 4 < length cells then cells ! 4 else []) \<rparr>)
        (filter ?ok (map line_cells (filter (startswith [pipe]) ?lines)))"
    by (rule rows)
  finally show ?thesis
    by (simp only: cells)
qed

text \<open>
  A plan with two spaces before it and a line feed after it, made of a header, a
  separator, one data row of four cells and a line of prose: stripping the text brings
  the header to the start of its line, and the one data row comes out, with an empty
  \<open>Grounded_Source\<close>.
\<close>

theorem parse_table_rows_witness:
  "split_on newline
     (strip ([32, 32] @ py ''| Test_ID | Feature | Scenario | Expected_Result |'' @ [newline] @
             py ''|---|---|---|---|'' @ [newline] @
             py ''| TC-1 | Login | Valid login | Dashboard |'' @ [newline] @
             py ''Notes: none'' @ [newline]))
     = [py ''| Test_ID | Feature | Scenario | Expected_Result |'',
        py ''|---|---|---|---|'',
        py ''| TC-1 | Login | Valid login | Dashboard |'',
        py ''Notes: none'']
   \<and> strip (py ''| Test_ID | Feature | Scenario | Expected_Result |'')
       = py ''| Test_ID | Feature | Scenario | Expected_Result |''
   \<and> strip (py ''|---|---|---|---|'') = py ''|---|---|---|---|''
   \<and> strip (py ''| TC-1 | Login | Valid login | Dashboard |'')
       = py ''| TC-1 | Login | Valid login | Dashboard |''
   \<and> \<not> startswith [pipe] (strip (py ''Notes: none''))
   \<and> parse_table
        ([32, 32] @ py ''| Test_ID | Feature | Scenario | Expected_Result |'' @ [newline] @
         py ''|---|---|---|---|'' @ [newline] @
         py ''| TC-1 | Login | Valid login | Dashboard |'' @ [newline] @
         py ''Notes: none'' @ [newline])
       = [\<lparr> Test_ID = py ''TC-1'', Feature = py ''Login'', Scenario = py ''Valid login'',
             Expected_Result = py ''Dashboard'', Grounded_Source = [] \<rparr>]"
  using parse_table_rows
      [of "[32, 32] @ py ''| Test_ID | Feature | Scenario | Expected_Result |'' @ [newline] @
           py ''|---|---|---|---|'' @ [newline] @
           py ''| TC-1 | Login | Valid login | Dashboard |'' @ [newline] @
           py ''Notes: none'' @ [newline]"]
  by (simp add: str_eval)

text \<open>
  The claim as worded fails on the header test. A data row whose first cell merely
  contains \<open>Test_ID\<close> (here \<open>Test_ID_2\<close>) is not the header, has four cells and no \<open>---\<close>,
  and the parser of the claim keeps it; the code discards it.
\<close>

theorem parse_table_not_as_claimed:
  "parse_table (py ''| Test_ID_2 | Login | Valid login | Dashboard |'') = []
   \<and> claimed_parse_table (py ''| Test_ID_2 | Login | Valid login | Dashboard |'')
       = [\<lparr> Test_ID = py ''Test_ID_2'', Feature = py ''Login'', Scenario = py ''Valid login'',
             Expected_Result = py ''Dashboard'', Grounded_Source = [] \<rparr>]"
  by (simp add: parse_table_def table_lines_def line_cells_def row_data_def cell_or_empty_def
      claimed_parse_table_def claimed_table_lines_def claimed_row_kept_def str_eval)

section \<open>The clean-up of a script\<close>

lemma fence_eq: "fence = [backtick, backtick, backtick]"
  by (simp add: fence_def py_eval backtick_def)

lemma fence_not_Nil: "fence \<noteq> []"
  by (simp add: fence_eq)

lemma lead_Nil: "lead [] = 0"
  by (simp add: lead_def)

lemma lead_Cons: "lead (c # cs) = (if c = backtick then Suc (lead cs) else 0)"
  by (simp add: lead_def)

text \<open>A string starts with a fence exactly when it begins with three backticks or more.\<close>

lemma startswith_fence: "startswith fence s \<longleftrightarrow> 3 \<le> lead s"
proof (cases s)
  case Nil
  then show ?thesis by (simp add: fence_eq startswith_def lead_Nil)
next
  case s1: (Cons a s1)
  show ?thesis
  proof (cases s1)
    case Nil
    then show ?thesis using s1 by (simp add: fence_eq startswith_def lead_Cons lead_Nil)
  next
    case s2: (Cons b s2)
    show ?thesis
    proof (cases s2)
      case Nil
      then show ?thesis using s1 s2 by (simp add: fence_eq startswith_def lead_Cons lead_Nil)
    next
      case (Cons c s3)
      then show ?thesis using s1 s2 by (auto simp add: fence_eq startswith_def lead_Cons)
    qed
  qed
qed

lemma startswith_fence_decomp:
  "startswith fence s \<Longrightarrow> s = backtick # backtick # backtick # drop (length fence) s"
proof -
  assume "startswith fence s"
  then have "take (length fence) s = fence" by (simp add: startswith_def)
  then have "s = fence @ drop (length fence) s"
    by (metis append_take_drop_id)
  then show ?thesis by (simp add: fence_eq)
qed

lemma lead_drop_fence: "startswith fence s \<Longrightarrow> lead s = 3 + lead (drop (length fence) s)"
proof -
  assume "startswith fence s"
  then have "lead s = lead (backtick # backtick # backtick # drop (length fence) s)"
    using startswith_fence_decomp by simp
  then show ?thesis by (simp add: lead_Cons)
qed

text \<open>
  Deleting the fences leaves, of a run of backticks at the start, its length modulo
  three: the occurrences are taken from the left, three backticks at a time.
\<close>

lemma lead_replace: "lead (py_replace fence [] t) = lead t mod 3"
proof (induction t rule: length_induct)
  case (1 t)
  show ?case
  proof (cases t)
    case Nil
    then show ?thesis by (simp add: lead_Nil)
  next
    case (Cons c cs)
    show ?thesis
    proof (cases "startswith fence t")
      case True
      have "length (drop (length fence) t) < length t"
        using Cons by (simp add: fence_eq)
      then have "lead (py_replace fence [] (drop (length fence) t))
          = lead (drop (length fence) t) mod 3"
        using 1 by blast
      then show ?thesis
        using True Cons lead_drop_fence [OF True] by (simp add: fence_not_Nil)
    next
      case False
      then have lt: "lead t < 3" by (simp add: startswith_fence)
      have ih: "lead (py_replace fence [] cs) = lead cs mod 3"
        using 1 Cons by simp
      show ?thesis
        using False Cons lt ih by (auto simp add: fence_not_Nil lead_Cons split: if_splits)
    qed
  qed
qed

text \<open>After the fences are deleted, no fence is left anywhere.\<close>

lemma no_fence_left: "\<not> py_in fence (py_replace fence [] t)"
proof (induction t rule: length_induct)
  case (1 t)
  show ?case
  proof (cases t)
    case Nil
    then show ?thesis by (simp add: fence_not_Nil)
  next
    case (Cons c cs)
    show ?thesis
    proof (cases "startswith fence t")
      case True
      have "length (drop (length fence) t) < length t"
        using Cons by (simp add: fence_eq)
      then have "\<not> py_in fence (py_replace fence [] (drop (length fence) t))"
        using 1 by blast
      then show ?thesis using True Cons by (simp add: fence_not_Nil)
    next
      case False
      have ih: "\<not> py_in fence (py_replace fence [] cs)"
        using 1 Cons by simp
      have "lead (py_replace fence [] t) < 3"
        by (simp add: lead_replace)
      then have "\<not> startswith fence (py_replace fence [] t)"
        by (simp add: startswith_fence)
      then show ?thesis
        using False Cons ih by (simp add: fence_not_Nil)
    qed
  qed
qed

text \<open>Deleting the fences deletes backticks only.\<close>

lemma replace_fence_keeps_others:
  "filter (\<lambda>c. c \<noteq> backtick) (py_replace fence [] t) = filter (\<lambda>c. c \<noteq> backtick) t"
proof (induction t rule: length_induct)
  case (1 t)
  show ?case
  proof (cases t)
    case Nil
    then show ?thesis by (simp add: fence_not_Nil)
  next
    case (Cons c cs)
    show ?thesis
    proof (cases "startswith fence t")
      case True
      have "length (drop (length fence) t) < length t"
        using Cons by (simp add: fence_eq)
      then have ih: "filter (\<lambda>c. c \<noteq> backtick) (py_replace fence [] (drop (length fence) t))
          = filter (\<lambda>c. c \<noteq> backtick) (drop (length fence) t)"
        using 1 by blast
      have "filter (\<lambda>c. c \<noteq> backtick) t
          = filter (\<lambda>c. c \<noteq> backtick)
              (backtick # backtick # backtick # drop (length fence) t)"
        using startswith_fence_decomp [OF True] by simp
      then have "filter (\<lambda>c. c \<noteq> backtick) t
          = filter (\<lambda>c. c \<noteq> backtick) (drop (length fence) t)"
        by simp
      then show ?thesis using True Cons ih by (simp add: fence_not_Nil)
    next
      case False
      have ih: "filter (\<lambda>c. c \<noteq> backtick) (py_replace fence [] cs)
          = filter (\<lambda>c. c \<noteq> backtick) cs"
        using 1 Cons by simp
      show ?thesis
        using False Cons ih by (simp add: fence_not_Nil)
    qed
  qed
qed

text \<open>
  C8, as the code has it. A script that does not start with the fence followed by
  \<open>python\<close> is left as it is, whatever fences it holds. A script that starts with it is
  replaced by the result of deleting, from the left and without overlap, every
  occurrence of that marker and then, in what is left, every occurrence of the fence,
  wherever they stand; no fence is left in the result, at the ends or inside.
\<close>

theorem clean_script_effect:
  "clean_script script_code =
     (if startswith (py ''```python'') script_code
      then py_replace (py ''```'') [] (py_replace (py ''```python'') [] script_code)
      else script_code)
   \<and> (\<not> startswith (py ''```python'') script_code \<longrightarrow> clean_script script_code = script_code)
   \<and> (startswith (py ''```python'') script_code \<longrightarrow>
        \<not> py_in (py ''```'') (clean_script script_code))"
proof -
  have a: "clean_script script_code =
     (if startswith (py ''```python'') script_code
      then py_replace (py ''```'') [] (py_replace (py ''```python'') [] script_code)
      else script_code)"
    by (simp add: clean_script_def fence_def fence_python_def)
  have b: "\<not> startswith (py ''```python'') script_code \<longrightarrow> clean_script script_code = script_code"
    by (simp add: clean_script_def fence_python_def)
  have "startswith fence_python script_code \<longrightarrow> \<not> py_in fence (clean_script script_code)"
    by (simp add: clean_script_def no_fence_left)
  then have c: "startswith (py ''```python'') script_code \<longrightarrow>
        \<not> py_in (py ''```'') (clean_script script_code)"
    by (simp add: fence_def fence_python_def)
  show ?thesis using a b c by blast
qed

lemmas replace_eval = fence_def fence_python_def backtick_def

text \<open>
  A script with a lone backtick inside and a fence at its end only is left as it is; a
  fenced script with a lone backtick inside loses its fences and keeps the backtick.
\<close>

theorem clean_script_effect_witness:
  "\<not> startswith (py ''```python'') (py ''print(1) # `x`'' @ [newline] @ py ''```'')
   \<and> clean_script (py ''print(1) # `x`'' @ [newline] @ py ''```'')
       = py ''print(1) # `x`'' @ [newline] @ py ''```''
   \<and> startswith (py ''```python'')
         (py ''```python'' @ [newline] @ py ''print(1) # `x`'' @ [newline] @ py ''```'')
   \<and> \<not> py_in (py ''```'')
         (clean_script
            (py ''```python'' @ [newline] @ py ''print(1) # `x`'' @ [newline] @ py ''```''))
   \<and> clean_script (py ''```python'' @ [newline] @ py ''print(1) # `x`'' @ [newline] @ py ''```'')
       = [newline] @ py ''print(1) # `x`'' @ [newline]"
  using clean_script_effect [of "py ''print(1) # `x`'' @ [newline] @ py ''```''"]
    clean_script_effect
      [of "py ''```python'' @ [newline] @ py ''print(1) # `x`'' @ [newline] @ py ''```''"]
  by (simp add: str_eval)

text \<open>
  The claim as worded fails on two counts. In a script that starts with the marker, a
  fence inside the text (here between the quotes of a string literal) is removed too.
  And a script wrapped in bare fences, without the language tag, keeps both of them.
\<close>

theorem clean_script_not_as_claimed:
  "clean_script (py ''```python'' @ [newline] @ py ''x = \"```\"'' @ [newline] @ py ''```'')
     = [newline] @ py ''x = \"\"'' @ [newline]
   \<and> claimed_clean_script
         (py ''```python'' @ [newline] @ py ''x = \"```\"'' @ [newline] @ py ''```'')
     = [newline] @ py ''x = \"```\"'' @ [newline]
   \<and> clean_script (py ''```'' @ [newline] @ py ''x = 1'' @ [newline] @ py ''```'')
     = py ''```'' @ [newline] @ py ''x = 1'' @ [newline] @ py ''```''
   \<and> claimed_clean_script (py ''```'' @ [newline] @ py ''x = 1'' @ [newline] @ py ''```'')
     = [newline] @ py ''x = 1'' @ [newline]"
  by (simp add: clean_script_def claimed_clean_script_def endswith_def replace_eval str_eval)

section \<open>Evaluation of the backend's functions\<close>

lemmas file_eval =
  upload_path_def UPLOAD_DIR_def html_path_def path_join_def endswith_def lower_def
  read_text_def is_cont_def

lemma show_nat_digit: "n < 10 \<Longrightarrow> show_nat n = [48 + n]"
  by (simp add: show_nat.simps)

section \<open>The ingest\<close>

text \<open>A file that has just been written is loaded from its own bytes alone.\<close>

lemma load_document_after_write:
  "load_document env (fs(p \<mapsto> bs)) p name = load_document env [p \<mapsto> bs] p name"
  by (simp add: load_document_def TextLoader_load_def read_text_def)

lemma process_html_file_after_write:
  "process_html_file env (fs(p \<mapsto> bs)) p = process_html_file env [p \<mapsto> bs] p"
  by (simp add: process_html_file_def read_text_def)

lemma stored_Cons:
  "stored fs (f # rest) = stored (fs(upload_path f \<mapsto> file_bytes f)) rest"
  by (simp add: stored_def)

text \<open>One round of the loop, for a file that can be written: loaded or skipped, the loop goes on.\<close>

lemma load_support_docs_step:
  assumes "can_write env (upload_path f)"
  shows "load_support_docs env (f # rest) documents fs =
     load_support_docs env rest (documents @ loaded_or_skipped env f)
       (fs(upload_path f \<mapsto> file_bytes f))"
proof -
  have w: "write_file env fs (path_join UPLOAD_DIR (filename f)) (file_bytes f)
      = Inr (fs(upload_path f \<mapsto> file_bytes f))"
    using assms by (simp add: write_file_def upload_path_def)
  have l: "load_document env (fs(upload_path f \<mapsto> file_bytes f)) (upload_path f) (filename f)
      = load_document env [upload_path f \<mapsto> file_bytes f] (upload_path f) (filename f)"
    by (rule load_document_after_write)
  show ?thesis
  proof (cases "load_document env [upload_path f \<mapsto> file_bytes f] (upload_path f) (filename f)")
    case (Inl e)
    then show ?thesis
      using w l by (simp add: loaded_or_skipped_def upload_path_def [symmetric])
  next
    case (Inr docs)
    then show ?thesis
      using w l by (simp add: loaded_or_skipped_def upload_path_def [symmetric])
  qed
qed

lemma load_support_docs_all:
  "\<forall>u \<in> set files. can_write env (upload_path u) \<Longrightarrow>
   load_support_docs env files documents fs =
     (Inr (documents @ concat (map (loaded_or_skipped env) files)), stored fs files)"
proof (induction files arbitrary: documents fs)
  case Nil
  then show ?case by (simp add: stored_def)
next
  case (Cons f rest)
  have w: "can_write env (upload_path f)"
    using Cons.prems by simp
  have rest: "\<forall>u \<in> set rest. can_write env (upload_path u)"
    using Cons.prems by simp
  show ?case
    by (simp only: load_support_docs_step [OF w] Cons.IH [OF rest] stored_Cons
        list.map concat.simps append_assoc)
qed

text \<open>
  C3. Whatever support files fail to load, the ingest goes through: when every upload
  can be written, the page can be read and the store takes the chunks, the request
  succeeds, and the chunks it stores are those of the documents of every support file
  that did load, in order, followed by the two documents of the page. A support file
  whose loading raises adds nothing and stops nothing.
\<close>

theorem ingest_skips_failed_documents:
  assumes writes: "\<forall>file \<in> set files. can_write env (upload_path file)"
    and whtml: "can_write env html_path"
    and html: "process_html_file env [html_path \<mapsto> file_bytes html_file] html_path = Inr html_docs"
    and chunks: "chunked_docs =
        split_documents env (concat (map (loaded_or_skipped env) files) @ html_docs)"
    and store: "add_documents_error env (vector_db st) chunked_docs = None"
  shows "build_knowledge_base env st files html_file =
           (Inr (IngestResponse (py ''success'')
                  (py ''Processed '' @ show_nat (length files + 1) @ py '' files.'')
                  (length chunked_docs)),
            st\<lparr>disk := (stored (disk st) files)(html_path \<mapsto> file_bytes html_file),
               vector_db := vector_db st @ chunked_docs,
               calls := calls st @ (if chunked_docs = [] then [] else [AddDocuments chunked_docs])\<rparr>)
         \<and> (\<forall>file \<in> set files. \<forall>e.
               load_document env [upload_path file \<mapsto> file_bytes file] (upload_path file)
                 (filename file) = Inl e \<longrightarrow> loaded_or_skipped env file = [])"
proof -
  have docs: "load_support_docs env files [] (disk st) =
      (Inr (concat (map (loaded_or_skipped env) files)), stored (disk st) files)"
    using load_support_docs_all [OF writes, of "[]" "disk st"] by simp
  have main: "build_knowledge_base env st files html_file =
           (Inr (IngestResponse (py ''success'')
                  (py ''Processed '' @ show_nat (length files + 1) @ py '' files.'')
                  (length chunked_docs)),
            st\<lparr>disk := (stored (disk st) files)(html_path \<mapsto> file_bytes html_file),
               vector_db := vector_db st @ chunked_docs,
               calls := calls st @ (if chunked_docs = [] then [] else [AddDocuments chunked_docs])\<rparr>)"
    using whtml html store chunks [symmetric]
      process_html_file_after_write
        [of env "stored (disk st) files" html_path "file_bytes html_file"]
    by (simp add: build_knowledge_base_def docs write_file_def Let_def)
  have skip: "\<forall>file \<in> set files. \<forall>e.
               load_document env [upload_path file \<mapsto> file_bytes file] (upload_path file)
                 (filename file) = Inl e \<longrightarrow> loaded_or_skipped env file = []"
    by (simp add: loaded_or_skipped_def)
  show ?thesis using main skip by blast
qed

text \<open>
  An ingest of two support files and a page: \<open>bad.txt\<close> holds the byte 255, which is not
  UTF-8, and its loading raises; \<open>ok.txt\<close> and the page are ingested all the same.
\<close>

theorem ingest_skips_failed_documents_witness:
  "load_document plain_services [py ''./uploaded_docs/bad.txt'' \<mapsto> [255]]
      (py ''./uploaded_docs/bad.txt'') (py ''bad.txt'')
     = Inl (LibraryError (py ''Error loading ./uploaded_docs/bad.txt''))
   \<and> fst (build_knowledge_base plain_services (fresh_server None)
          [\<lparr>filename = py ''bad.txt'', file_bytes = [255]\<rparr>,
           \<lparr>filename = py ''ok.txt'', file_bytes = [104, 105]\<rparr>]
          \<lparr>filename = py ''page.html'', file_bytes = [60, 112, 62]\<rparr>)
       = Inr (IngestResponse (py ''success'') (py ''Processed 3 files.'') 3)
   \<and> map page_content (vector_db (snd (build_knowledge_base plain_services (fresh_server None)
          [\<lparr>filename = py ''bad.txt'', file_bytes = [255]\<rparr>,
           \<lparr>filename = py ''ok.txt'', file_bytes = [104, 105]\<rparr>]
          \<lparr>filename = py ''page.html'', file_bytes = [60, 112, 62]\<rparr>)))
       = [py ''hi'', py ''<p>'', py ''<p>'']"
proof -
  let ?files = "[\<lparr>filename = py ''bad.txt'', file_bytes = [255]\<rparr>,
                 \<lparr>filename = py ''ok.txt'', file_bytes = [104, 105]\<rparr>]"
  let ?page = "\<lparr>filename = py ''page.html'', file_bytes = [60, 112, 62]\<rparr>"
  let ?html_docs =
    "[\<lparr> page_content = py ''<p>'',
         metadata = [py ''source'' \<mapsto> py ''checkout.html'', py ''type'' \<mapsto> py ''text''] \<rparr>,
      \<lparr> page_content = py ''<p>'',
         metadata = [py ''source'' \<mapsto> py ''checkout.html'', py ''type'' \<mapsto> py ''code''] \<rparr>]"
  have w: "\<forall>u \<in> set ?files. can_write plain_services (upload_path u)"
    by (simp add: plain_services_def)
  have wh: "can_write plain_services html_path"
    by (simp add: plain_services_def)
  have h: "process_html_file plain_services [html_path \<mapsto> file_bytes ?page] html_path
      = Inr ?html_docs"
    by (simp add: process_html_file_def read_text_def plain_services_def py_eval)
  have s: "add_documents_error plain_services (vector_db (fresh_server None))
      (split_documents plain_services
         (concat (map (loaded_or_skipped plain_services) ?files) @ ?html_docs)) = None"
    by (simp add: plain_services_def)
  have bad: "load_document plain_services [py ''./uploaded_docs/bad.txt'' \<mapsto> [255]]
      (py ''./uploaded_docs/bad.txt'') (py ''bad.txt'')
     = Inl (LibraryError (py ''Error loading ./uploaded_docs/bad.txt''))"
    by (simp add: load_document_def TextLoader_load_def file_eval str_eval)
  have docs: "split_documents plain_services
         (concat (map (loaded_or_skipped plain_services) ?files) @ ?html_docs)
      = \<lparr> page_content = py ''hi'',
           metadata = [py ''source'' \<mapsto> py ''./uploaded_docs/ok.txt''] \<rparr> # ?html_docs"
    by (simp add: plain_services_def loaded_or_skipped_def load_document_def
        TextLoader_load_def file_eval str_eval)
  show ?thesis
    using ingest_skips_failed_documents [OF w wh h refl s, unfolded docs] bad
    by (simp add: show_nat_digit py_eval fresh_server_def)
qed

text \<open>
  C10. When the steps before the chunking go through and the splitter returns no chunk,
  the request returns the success reply with \<open>chunks_created\<close> 0 and changes the state in
  the upload directory only: the store is as it was and no call to it was made. And
  whenever the reply of an ingest reports 0 chunks, the store is unchanged.
\<close>

theorem ingest_without_chunks:
  "(load_support_docs env files [] (disk st) = (Inr documents, fs1)
      \<and> write_file env fs1 html_path (file_bytes html_file) = Inr fs2
      \<and> process_html_file env fs2 html_path = Inr html_docs
      \<and> split_documents env (documents @ html_docs) = []
    \<longrightarrow> build_knowledge_base env st files html_file =
          (Inr (IngestResponse (py ''success'')
                  (py ''Processed '' @ show_nat (length files + 1) @ py '' files.'') 0),
           st\<lparr>disk := fs2\<rparr>))
   \<and> (build_knowledge_base env st files html_file = (Inr reply, st') \<and> chunks_created reply = 0
    \<longrightarrow> vector_db st' = vector_db st \<and> calls st' = calls st)"
proof -
  have a: "build_knowledge_base env st files html_file =
          (Inr (IngestResponse (py ''success'')
                  (py ''Processed '' @ show_nat (length files + 1) @ py '' files.'') 0),
           st\<lparr>disk := fs2\<rparr>)"
    if "load_support_docs env files [] (disk st) = (Inr documents, fs1)"
      and "write_file env fs1 html_path (file_bytes html_file) = Inr fs2"
      and "process_html_file env fs2 html_path = Inr html_docs"
      and "split_documents env (documents @ html_docs) = []"
    using that by (simp add: build_knowledge_base_def)
  have b: "vector_db st' = vector_db st \<and> calls st' = calls st"
    if "build_knowledge_base env st files html_file = (Inr reply, st')"
      and "chunks_created reply = 0"
    using that
    by (auto simp add: build_knowledge_base_def Let_def
        split: prod.splits sum.splits if_splits option.splits)
  show ?thesis using a b by blast
qed

text \<open>An empty page ingested into a store that holds one document: no chunk, the store as it was.\<close>

theorem ingest_without_chunks_witness:
  "load_support_docs plain_services [] []
      (disk \<lparr> disk = Map.empty,
               vector_db = [\<lparr> page_content = py ''rule'', metadata = Map.empty \<rparr>],
               llm = None, calls = [] \<rparr>)
     = (Inr [], Map.empty)
   \<and> write_file plain_services Map.empty html_path [] = Inr [html_path \<mapsto> []]
   \<and> split_documents plain_services
        [\<lparr> page_content = [],
            metadata = [py ''source'' \<mapsto> py ''checkout.html'', py ''type'' \<mapsto> py ''text''] \<rparr>,
         \<lparr> page_content = [],
            metadata = [py ''source'' \<mapsto> py ''checkout.html'', py ''type'' \<mapsto> py ''code''] \<rparr>]
       = []
   \<and> build_knowledge_base plain_services
        \<lparr> disk = Map.empty,
           vector_db = [\<lparr> page_content = py ''rule'', metadata = Map.empty \<rparr>],
           llm = None, calls = [] \<rparr>
        [] \<lparr>filename = py ''empty.html'', file_bytes = []\<rparr>
       = (Inr (IngestResponse (py ''success'') (py ''Processed 1 files.'') 0),
          \<lparr> disk = [html_path \<mapsto> []],
             vector_db = [\<lparr> page_content = py ''rule'', metadata = Map.empty \<rparr>],
             llm = None, calls = [] \<rparr>)
   \<and> chunks_created (IngestResponse (py ''success'') (py ''Processed 1 files.'') 0) = 0"
proof -
  let ?st = "\<lparr> disk = Map.empty,
           vector_db = [\<lparr> page_content = py ''rule'', metadata = Map.empty \<rparr>],
           llm = None, calls = [] \<rparr>"
  let ?page = "\<lparr>filename = py ''empty.html'', file_bytes = []\<rparr>"
  let ?html_docs =
    "[\<lparr> page_content = [],
         metadata = [py ''source'' \<mapsto> py ''checkout.html'', py ''type'' \<mapsto> py ''text''] \<rparr>,
      \<lparr> page_content = [],
         metadata = [py ''source'' \<mapsto> py ''checkout.html'', py ''type'' \<mapsto> py ''code''] \<rparr>]"
  have a: "load_support_docs plain_services [] [] (disk ?st) = (Inr [], Map.empty)"
    by simp
  have b: "write_file plain_services Map.empty html_path (file_bytes ?page)
      = Inr [html_path \<mapsto> []]"
    by (simp add: write_file_def plain_services_def)
  have c: "process_html_file plain_services [html_path \<mapsto> []] html_path = Inr ?html_docs"
    by (simp add: process_html_file_def read_text_def plain_services_def py_eval)
  have d: "split_documents plain_services ([] @ ?html_docs) = []"
    by (simp add: plain_services_def)
  show ?thesis
    using ingest_without_chunks
        [of plain_services "[]" ?st "[]" Map.empty ?page "[html_path \<mapsto> []]" ?html_docs
          "IngestResponse (py ''success'') (py ''Processed 1 files.'') 0"
          "\<lparr> disk = [html_path \<mapsto> []],
             vector_db = [\<lparr> page_content = py ''rule'', metadata = Map.empty \<rparr>],
             llm = None, calls = [] \<rparr>"]
      a b c d
    by (simp add: show_nat_digit py_eval)
qed

section \<open>The two loaders\<close>

text \<open>
  C6, as the code has it. For every page whose bytes decode as UTF-8 and whose markup
  the parser accepts, the splitter returns exactly two documents: the text the parser
  extracts, tagged type \<open>text\<close>, then the markup as the parser writes it back, tagged type
  \<open>code\<close>, both with source \<open>checkout.html\<close>. For a page whose bytes do not decode as
  UTF-8, and for a page the parser rejects, it returns no document: it raises.
\<close>

theorem process_html_file_two_segments:
  "(fs file_path = Some bs \<and> utf8_decode bs = Some html
      \<and> parser_rejects env (universal_newlines html) = None \<longrightarrow>
      process_html_file env fs file_path =
        Inr [\<lparr> page_content = soup_get_text env (universal_newlines html),
                metadata = [py ''source'' \<mapsto> py ''checkout.html'', py ''type'' \<mapsto> py ''text''] \<rparr>,
             \<lparr> page_content = soup_str env (universal_newlines html),
                metadata = [py ''source'' \<mapsto> py ''checkout.html'', py ''type'' \<mapsto> py ''code''] \<rparr>])
   \<and> (fs file_path = Some bs \<and> utf8_decode bs = None \<longrightarrow>
      process_html_file env fs file_path = Inl UnicodeDecodeError)
   \<and> (fs file_path = Some bs \<and> utf8_decode bs = Some html
      \<and> parser_rejects env (universal_newlines html) = Some msg \<longrightarrow>
      process_html_file env fs file_path = Inl (LibraryError msg))"
  by (simp add: process_html_file_def read_text_def)

text \<open>
  The page \<open><p>caf\<close>, e acute, \<open></p>\<close> in UTF-8 (the bytes 195, 169 for the accented
  letter) gives the two documents; a page cut in the middle of a character gives none,
  and neither does a page the parser rejects.
\<close>

theorem process_html_file_two_segments_witness:
  "utf8_decode [60, 112, 62, 99, 97, 102, 195, 169, 60, 47, 112, 62]
     = Some [60, 112, 62, 99, 97, 102, 233, 60, 47, 112, 62]
   \<and> parser_rejects plain_services [60, 112, 62, 99, 97, 102, 233, 60, 47, 112, 62] = None
   \<and> process_html_file plain_services
      [html_path \<mapsto> [60, 112, 62, 99, 97, 102, 195, 169, 60, 47, 112, 62]] html_path
     = Inr [\<lparr> page_content = [60, 112, 62, 99, 97, 102, 233, 60, 47, 112, 62],
              metadata = [py ''source'' \<mapsto> py ''checkout.html'', py ''type'' \<mapsto> py ''text''] \<rparr>,
            \<lparr> page_content = [60, 112, 62, 99, 97, 102, 233, 60, 47, 112, 62],
              metadata = [py ''source'' \<mapsto> py ''checkout.html'', py ''type'' \<mapsto> py ''code''] \<rparr>]
   \<and> utf8_decode [60, 112, 62, 195] = None
   \<and> process_html_file plain_services [html_path \<mapsto> [60, 112, 62, 195]] html_path
       = Inl UnicodeDecodeError
   \<and> utf8_decode [60, 33, 91, 85, 78, 75, 78, 79, 87, 78, 91, 93, 93, 62]
       = Some (py ''<![UNKNOWN[]]>'')
   \<and> process_html_file plain_services
        [html_path \<mapsto> [60, 33, 91, 85, 78, 75, 78, 79, 87, 78, 91, 93, 93, 62]] html_path
       = Inl (LibraryError (py ''unknown status keyword in marked section''))"
  using process_html_file_two_segments
      [of "[html_path \<mapsto> [60, 112, 62, 99, 97, 102, 195, 169, 60, 47, 112, 62]]" html_path
        "[60, 112, 62, 99, 97, 102, 195, 169, 60, 47, 112, 62]"
        "[60, 112, 62, 99, 97, 102, 233, 60, 47, 112, 62]" plain_services]
    process_html_file_two_segments
      [of "[html_path \<mapsto> [60, 112, 62, 195]]" html_path "[60, 112, 62, 195]" _ plain_services]
    process_html_file_two_segments
      [of "[html_path \<mapsto> [60, 33, 91, 85, 78, 75, 78, 79, 87, 78, 91, 93, 93, 62]]" html_path
        "[60, 33, 91, 85, 78, 75, 78, 79, 87, 78, 91, 93, 93, 62]"
        "py ''<![UNKNOWN[]]>''" plain_services
        "py ''unknown status keyword in marked section''"]
  by (simp add: is_cont_def plain_services_def py_eval)

text \<open>
  The claim as worded, for every HTML input, fails on the same page saved as Latin-1,
  where the accented letter is the single byte 233: no document comes back.
\<close>

theorem process_html_file_latin1:
  "process_html_file plain_services
      [html_path \<mapsto> [60, 112, 62, 99, 97, 102, 233, 60, 47, 112, 62]] html_path
     = Inl UnicodeDecodeError"
  by (simp add: process_html_file_def read_text_def is_cont_def)

text \<open>
  C7, as the code has it. For a file whose name does not end in \<open>.pdf\<close>, whatever the
  case of the letters, and whose bytes decode as UTF-8, the loader returns exactly one
  document; its content is the decoded text of the file and its metadata is
  \<open>{source: file_path}\<close>, the path the file was written to, not its name. For an upload
  whose name does not start with a slash that path is \<open>./uploaded_docs/\<close> followed by the name.
\<close>

theorem load_document_text_file:
  assumes name: "\<not> endswith (py ''.pdf'') (lower name)"
    and stored_bytes: "fs file_path = Some bs"
    and decoded: "utf8_decode bs = Some content"
  shows "load_document env fs file_path name =
           Inr [\<lparr> page_content = universal_newlines content,
                   metadata = [py ''source'' \<mapsto> file_path] \<rparr>]
       \<and> (\<not> startswith [47] name \<longrightarrow> path_join UPLOAD_DIR name = py ''./uploaded_docs/'' @ name)"
proof -
  have "load_document env fs file_path name = TextLoader_load fs file_path"
    using name by (simp add: load_document_def)
  then have a: "load_document env fs file_path name =
           Inr [\<lparr> page_content = universal_newlines content,
                   metadata = [py ''source'' \<mapsto> file_path] \<rparr>]"
    using stored_bytes decoded by (simp add: TextLoader_load_def read_text_def)
  have b: "\<not> startswith [47] name \<longrightarrow> path_join UPLOAD_DIR name = py ''./uploaded_docs/'' @ name"
    by (simp add: path_join_def UPLOAD_DIR_def endswith_def py_eval)
  show ?thesis using a b by blast
qed

theorem load_document_text_file_witness:
  "\<not> endswith (py ''.pdf'') (lower (py ''Notes.TXT''))
   \<and> utf8_decode [104, 105, 13, 10] = Some (py ''hi'' @ [13, 10])
   \<and> load_document plain_services
        [py ''./uploaded_docs/Notes.TXT'' \<mapsto> [104, 105, 13, 10]]
        (py ''./uploaded_docs/Notes.TXT'') (py ''Notes.TXT'')
       = Inr [\<lparr> page_content = py ''hi'' @ [newline],
                metadata = [py ''source'' \<mapsto> py ''./uploaded_docs/Notes.TXT''] \<rparr>]
   \<and> \<not> startswith [47] (py ''Notes.TXT'')
   \<and> path_join UPLOAD_DIR (py ''Notes.TXT'') = py ''./uploaded_docs/Notes.TXT''"
  using load_document_text_file
      [of "py ''Notes.TXT''" "[py ''./uploaded_docs/Notes.TXT'' \<mapsto> [104, 105, 13, 10]]"
        "py ''./uploaded_docs/Notes.TXT''" "[104, 105, 13, 10]" "py ''hi'' @ [13, 10]"
        plain_services]
  by (simp add: endswith_def lower_def str_eval)

text \<open>
  The claim as worded fails on the metadata: for the upload \<open>notes.txt\<close> the source the
  document carries is \<open>./uploaded_docs/notes.txt\<close>, which is not the file name.
\<close>

theorem load_document_source_is_path:
  "load_document plain_services
      [upload_path \<lparr>filename = py ''notes.txt'', file_bytes = [104, 105]\<rparr> \<mapsto> [104, 105]]
      (upload_path \<lparr>filename = py ''notes.txt'', file_bytes = [104, 105]\<rparr>) (py ''notes.txt'')
     = Inr [\<lparr> page_content = py ''hi'',
              metadata = [py ''source'' \<mapsto> py ''./uploaded_docs/notes.txt''] \<rparr>]
   \<and> [py ''source'' \<mapsto> py ''./uploaded_docs/notes.txt''] (py ''source'')
       \<noteq> [py ''source'' \<mapsto> py ''notes.txt''] (py ''source'')"
  by (simp add: load_document_def TextLoader_load_def file_eval str_eval)

section \<open>The two generation endpoints\<close>

lemma read_text_only_path:
  "fs p = Some bs \<Longrightarrow> read_text fs p = read_text [p \<mapsto> bs] p"
  by (simp add: read_text_def)

text \<open>After a successful ingest the page stands at its path and reads as text.\<close>

lemma build_success_html_readable:
  assumes "build_knowledge_base env st0 files html_file = (Inr reply, st)"
  shows "disk st html_path = Some (file_bytes html_file)
       \<and> (\<exists>html. read_text (disk st) html_path = Inr html)"
  using assms
  by (auto simp add: build_knowledge_base_def Let_def process_html_file_def write_file_def
      split: prod.splits sum.splits if_splits option.splits)

lemma read_text_exists: "read_text fs p = Inr html \<Longrightarrow> fs p \<noteq> None"
  by (auto simp add: read_text_def split: option.splits)

text \<open>
  C4, as the code has it. With the model configured: when no file stands at the fixed
  path of the page, the script request fails with the 404 and its corrective message,
  and makes no call; when a file stands there, the answer is never a 404; and in a state
  reached by a successful ingest the page reads as text and the request goes on to the
  retrieval and the generation: it searches the store for the test case with \<open>k = 3\<close>
  and, when the search returns, asks the model with the prompt made of the test case,
  the retrieved rules and the text of the page, answering with the script the model
  returns or, when the model raises, with a 500 carrying its message. When the search
  raises, the exception is not caught and the model is not asked.
\<close>

theorem script_generation_needs_html_artifact:
  assumes m: "llm st = Some m"
  shows "(disk st html_path = None \<longrightarrow>
            generate_selenium_script env st test_case = (Inl html_not_found, st))
       \<and> html_not_found =
            HTTPException 404 (py ''checkout.html not found. Please run /build-knowledge-base first.'')
       \<and> (disk st html_path \<noteq> None \<longrightarrow>
            result_status (fst (generate_selenium_script env st test_case)) \<noteq> 404)
       \<and> (\<forall>st0 files html_file reply.
            build_knowledge_base env st0 files html_file = (Inr reply, st) \<longrightarrow>
              (\<exists>html_content.
                 read_text [html_path \<mapsto> file_bytes html_file] html_path = Inr html_content
                 \<and> generate_selenium_script env st test_case =
                     (case similarity_search env (vector_db st) test_case 3 of
                        Inl msg \<Rightarrow>
                          (Inl (Unhandled (LibraryError msg)),
                           st\<lparr>calls := calls st @ [SimilaritySearch test_case 3]\<rparr>)
                      | Inr relevant_docs \<Rightarrow>
                          (case llm_invoke env m
                                  (script_prompt test_case
                                     (join [newline] (map page_content relevant_docs))
                                     html_content) of
                             Inl msg \<Rightarrow> Inl (HTTPException 500 msg)
                           | Inr content \<Rightarrow> Inr (ScriptResponse (py ''success'') content),
                           st\<lparr>calls := calls st @
                                [SimilaritySearch test_case 3,
                                 LlmInvoke m
                                   (script_prompt test_case
                                      (join [newline] (map page_content relevant_docs))
                                      html_content)]\<rparr>))))"
proof -
  have a: "disk st html_path = None \<longrightarrow>
      generate_selenium_script env st test_case = (Inl html_not_found, st)"
    using m by (simp add: generate_selenium_script_def)
  have b: "html_not_found =
      HTTPException 404 (py ''checkout.html not found. Please run /build-knowledge-base first.'')"
    by (simp add: html_not_found_def)
  have c: "disk st html_path \<noteq> None \<longrightarrow>
      result_status (fst (generate_selenium_script env st test_case)) \<noteq> 404"
    using m
    by (auto simp add: generate_selenium_script_def Let_def split: sum.splits)
  have d: "\<exists>html_content.
             read_text [html_path \<mapsto> file_bytes html_file] html_path = Inr html_content
             \<and> generate_selenium_script env st test_case =
                 (case similarity_search env (vector_db st) test_case 3 of
                    Inl msg \<Rightarrow>
                      (Inl (Unhandled (LibraryError msg)),
                       st\<lparr>calls := calls st @ [SimilaritySearch test_case 3]\<rparr>)
                  | Inr relevant_docs \<Rightarrow>
                      (case llm_invoke env m
                              (script_prompt test_case
                                 (join [newline] (map page_content relevant_docs))
                                 html_content) of
                         Inl msg \<Rightarrow> Inl (HTTPException 500 msg)
                       | Inr content \<Rightarrow> Inr (ScriptResponse (py ''success'') content),
                       st\<lparr>calls := calls st @
                            [SimilaritySearch test_case 3,
                             LlmInvoke m
                               (script_prompt test_case
                                  (join [newline] (map page_content relevant_docs))
                                  html_content)]\<rparr>))"
    if built: "build_knowledge_base env st0 files html_file = (Inr reply, st)"
    for st0 files html_file reply
  proof -
    obtain html where r: "read_text (disk st) html_path = Inr html"
      and e: "disk st html_path = Some (file_bytes html_file)"
      using build_success_html_readable [OF built] by blast
    have r': "read_text [html_path \<mapsto> file_bytes html_file] html_path = Inr html"
      using r read_text_only_path [of "disk st" html_path "file_bytes html_file", OF e] by simp
    have "generate_selenium_script env st test_case =
                 (case similarity_search env (vector_db st) test_case 3 of
                    Inl msg \<Rightarrow>
                      (Inl (Unhandled (LibraryError msg)),
                       st\<lparr>calls := calls st @ [SimilaritySearch test_case 3]\<rparr>)
                  | Inr relevant_docs \<Rightarrow>
                      (case llm_invoke env m
                              (script_prompt test_case
                                 (join [newline] (map page_content relevant_docs))
                                 html) of
                         Inl msg \<Rightarrow> Inl (HTTPException 500 msg)
                       | Inr content \<Rightarrow> Inr (ScriptResponse (py ''success'') content),
                       st\<lparr>calls := calls st @
                            [SimilaritySearch test_case 3,
                             LlmInvoke m
                               (script_prompt test_case
                                  (join [newline] (map page_content relevant_docs))
                                  html)]\<rparr>))"
    proof (cases "similarity_search env (vector_db st) test_case 3")
      case (Inl msg)
      then show ?thesis
        using m r e by (simp add: generate_selenium_script_def)
    next
      case (Inr relevant_docs)
      then show ?thesis
        using m r e
        by (cases "llm_invoke env m
                     (script_prompt test_case
                        (join [newline] (map page_content relevant_docs)) html)")
           (simp_all add: generate_selenium_script_def Let_def)
    qed
    then show ?thesis using r' by (intro exI [of _ html] conjI)
  qed
  show ?thesis
    by (intro conjI allI impI a [rule_format] b c [rule_format] d)
qed

text \<open>
  With the model configured: the 404 on a fresh process; then the ingest of the page
  \<open><p>\<close>, after which the same request searches the store, asks the model and succeeds.
\<close>

theorem script_generation_needs_html_artifact_witness:
  "llm (fresh_server (Some gemini)) = Some gemini
   \<and> disk (fresh_server (Some gemini)) html_path = None
   \<and> generate_selenium_script plain_services (fresh_server (Some gemini)) (py ''Scenario: pay'')
       = (Inl (HTTPException 404
                 (py ''checkout.html not found. Please run /build-knowledge-base first.'')),
          fresh_server (Some gemini))
   \<and> build_knowledge_base plain_services (fresh_server (Some gemini)) []
         \<lparr>filename = py ''page.html'', file_bytes = [60, 112, 62]\<rparr>
       = (Inr (IngestResponse (py ''success'') (py ''Processed 1 files.'') 2), ingested_page)
   \<and> llm ingested_page = Some gemini
   \<and> fst (generate_selenium_script plain_services ingested_page (py ''Scenario: pay''))
       = Inr (ScriptResponse (py ''success'') (py ''print(1)''))
   \<and> calls (snd (generate_selenium_script plain_services ingested_page (py ''Scenario: pay'')))
       = calls ingested_page @
         [SimilaritySearch (py ''Scenario: pay'') 3,
          LlmInvoke gemini
            (script_prompt (py ''Scenario: pay'') (py ''<p>'' @ [newline] @ py ''<p>'') (py ''<p>''))]"
proof -
  have built: "build_knowledge_base plain_services (fresh_server (Some gemini)) []
         \<lparr>filename = py ''page.html'', file_bytes = [60, 112, 62]\<rparr>
       = (Inr (IngestResponse (py ''success'') (py ''Processed 1 files.'') 2), ingested_page)"
    by (simp add: build_knowledge_base_def write_file_def process_html_file_def read_text_def
        plain_services_def fresh_server_def ingested_page_def show_nat_digit py_eval Let_def)
  have before: "llm (fresh_server (Some gemini)) = Some gemini"
    by (simp add: fresh_server_def)
  have after: "llm ingested_page = Some gemini"
    by (simp add: ingested_page_def)
  have nofile: "disk (fresh_server (Some gemini)) html_path = None"
    by (simp add: fresh_server_def)
  have first: "generate_selenium_script plain_services (fresh_server (Some gemini))
      (py ''Scenario: pay'') = (Inl html_not_found, fresh_server (Some gemini))"
    using script_generation_needs_html_artifact
        [OF before, of plain_services "py ''Scenario: pay''", THEN conjunct1]
      nofile
    by (rule mp)
  note after_ingest =
    script_generation_needs_html_artifact
      [OF after, of plain_services "py ''Scenario: pay''",
        THEN conjunct2, THEN conjunct2, THEN conjunct2, rule_format, OF built]
  obtain html_content where
    rd: "read_text [html_path \<mapsto> file_bytes \<lparr>filename = py ''page.html'', file_bytes = [60, 112, 62]\<rparr>]
           html_path = Inr html_content"
    and g: "generate_selenium_script plain_services ingested_page (py ''Scenario: pay'') =
      (case similarity_search plain_services (vector_db ingested_page) (py ''Scenario: pay'') 3 of
         Inl msg \<Rightarrow>
           (Inl (Unhandled (LibraryError msg)),
            ingested_page\<lparr>calls := calls ingested_page @
              [SimilaritySearch (py ''Scenario: pay'') 3]\<rparr>)
       | Inr relevant_docs \<Rightarrow>
           (case llm_invoke plain_services gemini
                   (script_prompt (py ''Scenario: pay'')
                      (join [newline] (map page_content relevant_docs)) html_content) of
              Inl msg \<Rightarrow> Inl (HTTPException 500 msg)
            | Inr content \<Rightarrow> Inr (ScriptResponse (py ''success'') content),
            ingested_page\<lparr>calls := calls ingested_page @
              [SimilaritySearch (py ''Scenario: pay'') 3,
               LlmInvoke gemini
                 (script_prompt (py ''Scenario: pay'')
                    (join [newline] (map page_content relevant_docs)) html_content)]\<rparr>))"
    using after_ingest by (elim exE conjE)
  have h: "html_content = py ''<p>''"
    using rd by (simp add: read_text_def py_eval)
  have found: "similarity_search plain_services (vector_db ingested_page) (py ''Scenario: pay'') 3
      = Inr (vector_db ingested_page)"
    by (simp add: plain_services_def ingested_page_def)
  have rules: "join [newline] (map page_content (vector_db ingested_page))
      = py ''<p>'' @ [newline] @ py ''<p>''"
    by (simp add: ingested_page_def)
  have answer: "llm_invoke plain_services gemini request = Inr (py ''print(1)'')" for request
    by (simp add: plain_services_def)
  have gen: "generate_selenium_script plain_services ingested_page (py ''Scenario: pay'')
      = (Inr (ScriptResponse (py ''success'') (py ''print(1)'')),
         ingested_page\<lparr>calls := calls ingested_page @
           [SimilaritySearch (py ''Scenario: pay'') 3,
            LlmInvoke gemini
              (script_prompt (py ''Scenario: pay'') (py ''<p>'' @ [newline] @ py ''<p>'')
                 (py ''<p>''))]\<rparr>)"
    by (simp only: g found sum.case rules answer h)
  have status: "html_not_found =
      HTTPException 404 (py ''checkout.html not found. Please run /build-knowledge-base first.'')"
    by (simp add: html_not_found_def)
  show ?thesis
    by (simp add: before nofile first status built after gen)
qed

text \<open>
  The claim as worded, without the condition on the model, fails: on a process with no
  API key and no page ingested the answer is the 500 of the configuration, not a 404.
\<close>

theorem script_generation_unconfigured_no_artifact:
  "disk \<lparr> disk = Map.empty, vector_db = [], llm = None, calls = [] \<rparr> html_path = None
   \<and> fst (generate_selenium_script plain_services
         \<lparr> disk = Map.empty, vector_db = [], llm = None, calls = [] \<rparr> (py ''Scenario: pay''))
       = Inl (HTTPException 500 (py ''GOOGLE_API_KEY not configured.''))
   \<and> result_status (fst (generate_selenium_script plain_services
         \<lparr> disk = Map.empty, vector_db = [], llm = None, calls = [] \<rparr> (py ''Scenario: pay'')))
       \<noteq> 404"
  by (simp add: generate_selenium_script_def not_configured_def)

text \<open>
  C5. With no API key, or an empty one, no model is built; and when \<open>llm\<close> is \<open>None\<close>, the
  plan request and the script request both fail with status 500 and the detail
  \<open>GOOGLE_API_KEY not configured.\<close>, leaving the state as it was: no search in the store
  and no request to the model has been made.
\<close>

theorem generation_fails_fast_when_unconfigured:
  "initialize_llm env None = None
   \<and> initialize_llm env (Some []) = None
   \<and> (llm st = None \<longrightarrow>
        generate_test_cases env st prompt = (Inl not_configured, st)
        \<and> generate_selenium_script env st test_case = (Inl not_configured, st))
   \<and> not_configured = HTTPException 500 (py ''GOOGLE_API_KEY not configured.'')"
  by (simp add: initialize_llm_def generate_test_cases_def generate_selenium_script_def
      not_configured_def)

text \<open>A process started with an empty key, holding a page and a stored document: both requests fail at once.\<close>

theorem generation_fails_fast_when_unconfigured_witness:
  "initialize_llm plain_services None = None
   \<and> llm \<lparr> disk = [html_path \<mapsto> [60, 112, 62]],
            vector_db = [\<lparr> page_content = py ''rule'', metadata = Map.empty \<rparr>],
            llm = initialize_llm plain_services (Some []), calls = [] \<rparr> = None
   \<and> generate_test_cases plain_services
        \<lparr> disk = [html_path \<mapsto> [60, 112, 62]],
           vector_db = [\<lparr> page_content = py ''rule'', metadata = Map.empty \<rparr>],
           llm = initialize_llm plain_services (Some []), calls = [] \<rparr> (py ''discount'')
       = (Inl (HTTPException 500 (py ''GOOGLE_API_KEY not configured.'')),
          \<lparr> disk = [html_path \<mapsto> [60, 112, 62]],
             vector_db = [\<lparr> page_content = py ''rule'', metadata = Map.empty \<rparr>],
             llm = None, calls = [] \<rparr>)
   \<and> generate_selenium_script plain_services
        \<lparr> disk = [html_path \<mapsto> [60, 112, 62]],
           vector_db = [\<lparr> page_content = py ''rule'', metadata = Map.empty \<rparr>],
           llm = initialize_llm plain_services (Some []), calls = [] \<rparr> (py ''discount'')
       = (Inl (HTTPException 500 (py ''GOOGLE_API_KEY not configured.'')),
          \<lparr> disk = [html_path \<mapsto> [60, 112, 62]],
             vector_db = [\<lparr> page_content = py ''rule'', metadata = Map.empty \<rparr>],
             llm = None, calls = [] \<rparr>)"
  using generation_fails_fast_when_unconfigured
      [of plain_services
        "\<lparr> disk = [html_path \<mapsto> [60, 112, 62]],
           vector_db = [\<lparr> page_content = py ''rule'', metadata = Map.empty \<rparr>],
           llm = initialize_llm plain_services (Some []), calls = [] \<rparr>"
        "py ''discount''" "py ''discount''"]
  by simp

text \<open>
  C9. In the script request the check of the configuration comes first: with \<open>llm\<close>
  \<open>None\<close> and no file at the path of the page, the answer is the error of the
  configuration, of status 500, which is not the 404 of the missing page.
\<close>

theorem configuration_check_precedes_artifact_check:
  assumes "llm st = None" and "disk st html_path = None"
  shows "generate_selenium_script env st test_case = (Inl not_configured, st)
       \<and> status_code not_configured = 500
       \<and> not_configured \<noteq> html_not_found"
  using assms
  by (simp add: generate_selenium_script_def not_configured_def html_not_found_def)

theorem configuration_check_precedes_artifact_check_witness:
  "llm (fresh_server None) = None
   \<and> disk (fresh_server None) html_path = None
   \<and> generate_selenium_script plain_services (fresh_server None) (py ''Test_ID: TC-001'')
       = (Inl (HTTPException 500 (py ''GOOGLE_API_KEY not configured.'')), fresh_server None)
   \<and> status_code not_configured = 500"
  using configuration_check_precedes_artifact_check
      [of "fresh_server None" plain_services "py ''Test_ID: TC-001''"]
  by (simp add: fresh_server_def not_configured_def)

end
